theory Spec2Isabelle
  imports Main
begin

section \<open>Data model\<close>

text \<open>
  The content-moderation plugin, embedded from \<^verbatim>\<open>server/processor.go\<close>,
  \<^verbatim>\<open>server/plugin.go\<close> and \<^verbatim>\<open>server/api.go\<close>.

  A \<^verbatim>\<open>*model.Post\<close> is a record of the fields the plugin reads or writes. The pointer
  is taken to be non-nil: a post handed over by a host hook is a real message.
  The field \<^verbatim>\<open>Id\<close> is named \<open>PostId\<close> (\<open>Id\<close> is the identity relation of HOL).
\<close>

record Post =
  PostId :: string
  UserId :: string
  ChannelId :: string
  RootId :: string
  Message :: string

text \<open>
  Modelled from the spec: the type \<^verbatim>\<open>moderation.Result\<close> of the package
  \<^verbatim>\<open>server/moderation\<close>, which is not among the sources. The spec calls it a mapping from
  category label to a severity value, and the code ranges over it and compares each value
  with an \<^verbatim>\<open>int\<close>. A value of the type is the list of the map's entries in the order in
  which one \<^verbatim>\<open>range\<close> loop visits them; Go leaves that order open, so a property of the
  map is one that holds for every such list.
\<close>

type_synonym Result = "(string \<times> int) list"

text \<open>The values handed to the host's structured logger.\<close>

datatype logval = LStr string | LInt int

text \<open>
  Every call that leaves the plugin is recorded, in order, in a trace: calls of the scoring
  provider, of the host API and of the group store, and the pauses of the worker (in
  nanoseconds, as \<^verbatim>\<open>time.Duration\<close> counts).
\<close>

datatype event =
    ModerateText string
  | DeletePost string
  | CreatePost Post
  | GetDirectChannel string string
  | SearchLDAPGroupsByPrefix string
  | Sleep int
  | LogError string "logval list"
  | LogInfo string "logval list"
  | LogDebug string "logval list"

text \<open>
  The scoring provider, \<^verbatim>\<open>moderation.Moderator\<close>: its answer to \<^verbatim>\<open>ModerateText\<close> may
  depend on everything that happened before (the trace) and on the text. \<open>Inl\<close> is a
  non-nil \<^verbatim>\<open>error\<close>, which covers the expiry of the ten-second context.
\<close>

type_synonym Moderator = "event list \<Rightarrow> string \<Rightarrow> string + Result"

text \<open>
  The host API as the worker uses it. \<open>None\<close> is a nil \<^verbatim>\<open>*model.AppError\<close>; a direct
  channel is known by its id.
\<close>

record API =
  DeletePost_result :: "event list \<Rightarrow> string \<Rightarrow> string option"
  CreatePost_result :: "event list \<Rightarrow> Post \<Rightarrow> string option"
  GetDirectChannel_result :: "event list \<Rightarrow> string \<Rightarrow> string \<Rightarrow> string + string"

text \<open>The two sentinel errors, declared in both Go files.\<close>

datatype moderr = ErrModerationRejection | ErrModerationUnavailable

text \<open>The texts \<^verbatim>\<open>err.Error()\<close> yields for the declarations of \<^verbatim>\<open>plugin.go\<close>.\<close>

fun Plugin_Error :: "moderr \<Rightarrow> string" where
  "Plugin_Error ErrModerationRejection =
     ''_This post has been redacted by the moderation plugin: potentially inappropriate content detected_''"
| "Plugin_Error ErrModerationUnavailable =
     ''_This post has been redacted by the moderation plugin: moderation service is not available_''"

text \<open>The texts for the declarations of \<^verbatim>\<open>processor.go\<close>.\<close>

fun PostProcessor_Error :: "moderr \<Rightarrow> string" where
  "PostProcessor_Error ErrModerationRejection = ''potentially inappropriate content detected''"
| "PostProcessor_Error ErrModerationUnavailable = ''moderation service is not available''"

text \<open>
  The verdict of the spec, read off the \<^verbatim>\<open>error\<close> that \<^verbatim>\<open>moderatePost\<close> returns:
  nil is Clear.
\<close>

datatype Verdict = Clear | Violation | Unavailable

fun verdict :: "moderr option \<Rightarrow> Verdict" where
  "verdict None = Clear"
| "verdict (Some ErrModerationRejection) = Violation"
| "verdict (Some ErrModerationUnavailable) = Unavailable"

section \<open>Constants of \<^verbatim>\<open>processor.go\<close>\<close>

text \<open>
  \<^verbatim>\<open>time.Minute\<close> and \<^verbatim>\<open>time.Millisecond\<close> are numbers of nanoseconds. The three
  constants of the source are untyped integer constants, and Go divides two of them as
  integers; \<^verbatim>\<open>/\<close> and \<^verbatim>\<open>*\<close> associate to the left there as \<open>div\<close> and \<open>*\<close> do here.
\<close>

definition Millisecond :: int where
  "Millisecond = 1000000"

definition Minute :: int where
  "Minute = 60 * 1000000000"

definition maxProcessingQueueSize :: nat where
  "maxProcessingQueueSize = 10000"

definition postsPerMinuteLimit :: int where
  "postsPerMinuteLimit = 500"

definition processingInterval :: int where
  "processingInterval = 1 div postsPerMinuteLimit * Minute"

definition channelNotificationTemplate :: string where
  "channelNotificationTemplate =
     ''_A post with potentially offensive content was flagged and removed._''"

text \<open>\<^verbatim>\<open>fmt.Sprintf(dmNotificationTemplate, s)\<close>: the fixed text, two line feeds, then \<open>s\<close>.\<close>

definition dmNotificationPrefix :: string where
  "dmNotificationPrefix =
     ''_Your post with the following content was flagged and removed:_'' @ [CHR 0x0A, CHR 0x0A]"

definition dmNotification :: "string \<Rightarrow> string" where
  "dmNotification s = dmNotificationPrefix @ s"

section \<open>The synchronous gate (\<^verbatim>\<open>plugin.go\<close>)\<close>

text \<open>
  The fields of \<^verbatim>\<open>Plugin\<close> that moderation reads. \<open>plugin_moderator\<close> is nil when
  moderation is disabled; \<open>ModerateAllUsers\<close> is the flag of the configuration that
  \<^verbatim>\<open>getConfiguration\<close> returns.
\<close>

record Plugin =
  plugin_moderator :: "Moderator option"
  ModerateAllUsers :: bool
  plugin_thresholdValue :: int
  targetUsers :: "string set"

definition Plugin_shouldModerateUser :: "Plugin \<Rightarrow> string \<Rightarrow> bool" where
  "Plugin_shouldModerateUser P userID =
     (if ModerateAllUsers P then True else userID \<in> targetUsers P)"

fun Plugin_resultSeverityAboveThreshold :: "Plugin \<Rightarrow> Result \<Rightarrow> bool" where
  "Plugin_resultSeverityAboveThreshold P [] = False"
| "Plugin_resultSeverityAboveThreshold P ((category, severity) # rest) =
     (if severity \<ge> plugin_thresholdValue P then True
      else Plugin_resultSeverityAboveThreshold P rest)"

fun Plugin_keyPairs :: "Plugin \<Rightarrow> Result \<Rightarrow> logval list" where
  "Plugin_keyPairs P [] = []"
| "Plugin_keyPairs P ((category, severity) # rest) =
     (if severity \<ge> plugin_thresholdValue P
      then LStr category # LInt severity # Plugin_keyPairs P rest
      else Plugin_keyPairs P rest)"

definition Plugin_logFlaggedResult :: "Plugin \<Rightarrow> string \<Rightarrow> Result \<Rightarrow> event list \<Rightarrow> event list" where
  "Plugin_logFlaggedResult P userID result tr =
     tr @ [LogInfo ''Content was flagged by moderation''
             ([LStr ''user_id'', LStr userID, LStr ''threshold'', LInt (plugin_thresholdValue P)]
              @ Plugin_keyPairs P result)]"

definition Plugin_moderatePost :: "Plugin \<Rightarrow> Post \<Rightarrow> event list \<Rightarrow> moderr option \<times> event list" where
  "Plugin_moderatePost P post tr =
     (case plugin_moderator P of
        None \<Rightarrow> (None, tr)
      | Some m \<Rightarrow>
          if \<not> Plugin_shouldModerateUser P (UserId post) then (None, tr)
          else if Message post = [] then (None, tr)
          else (case m tr (Message post) of
                  Inl err \<Rightarrow>
                    (Some ErrModerationUnavailable,
                     tr @ [ModerateText (Message post),
                           LogError ''Text moderation failed'' [LStr ''err'', LStr err]])
                | Inr result \<Rightarrow>
                    if Plugin_resultSeverityAboveThreshold P result
                    then (Some ErrModerationRejection,
                          Plugin_logFlaggedResult P (UserId post) result
                            (tr @ [ModerateText (Message post)]))
                    else (None, tr @ [ModerateText (Message post)])))"

text \<open>
  The two hooks return the replacement post (nil is \<open>None\<close>), the rejection reason, and
  the trace. The assignment \<^verbatim>\<open>newPost.Message = err.Error()\<close> is the record update.
\<close>

definition MessageWillBePosted :: "Plugin \<Rightarrow> Post \<Rightarrow> event list \<Rightarrow> Post option \<times> string \<times> event list" where
  "MessageWillBePosted P newPost tr =
     (case Plugin_moderatePost P newPost tr of
        (Some err, tr') \<Rightarrow> (Some (newPost\<lparr>Message := Plugin_Error err\<rparr>), [], tr')
      | (None, tr') \<Rightarrow> (None, [], tr'))"

definition MessageWillBeUpdated :: "Plugin \<Rightarrow> Post \<Rightarrow> Post \<Rightarrow> event list \<Rightarrow> Post option \<times> string \<times> event list" where
  "MessageWillBeUpdated P newPost oldPost tr =
     (case Plugin_moderatePost P newPost tr of
        (Some err, tr') \<Rightarrow> (Some (newPost\<lparr>Message := Plugin_Error err\<rparr>), [], tr')
      | (None, tr') \<Rightarrow> (Some newPost, [], tr'))"

section \<open>The asynchronous worker (\<^verbatim>\<open>processor.go\<close>)\<close>

text \<open>
  The immutable fields of \<^verbatim>\<open>PostProcessor\<close>. Its channel \<^verbatim>\<open>postsCh\<close> is the one
  mutable part and is passed as a state of its own, below. \<^verbatim>\<open>newPostProcessor\<close> refuses a
  nil moderator, so the field holds a provider.
\<close>

record PostProcessor =
  botID :: string
  moderator :: Moderator
  thresholdValue :: int
  excludedUsers :: "string set"
  excludedChannels :: "string set"

definition PostProcessor_shouldModerateUser :: "PostProcessor \<Rightarrow> string \<Rightarrow> bool" where
  "PostProcessor_shouldModerateUser p userID =
     (if userID = botID p then False
      else if excludedUsers p = {} then True
      else userID \<notin> excludedUsers p)"

definition shouldModerateChannel :: "PostProcessor \<Rightarrow> string \<Rightarrow> bool" where
  "shouldModerateChannel p channelID =
     (if excludedChannels p = {} then True
      else channelID \<notin> excludedChannels p)"

fun PostProcessor_resultSeverityAboveThreshold :: "PostProcessor \<Rightarrow> Result \<Rightarrow> bool" where
  "PostProcessor_resultSeverityAboveThreshold p [] = False"
| "PostProcessor_resultSeverityAboveThreshold p ((category, severity) # rest) =
     (if severity \<ge> thresholdValue p then True
      else PostProcessor_resultSeverityAboveThreshold p rest)"

fun PostProcessor_keyPairs :: "PostProcessor \<Rightarrow> Result \<Rightarrow> logval list" where
  "PostProcessor_keyPairs p [] = []"
| "PostProcessor_keyPairs p ((category, severity) # rest) =
     (if severity \<ge> thresholdValue p
      then LStr (''computed_severity_'' @ category) # LInt severity # PostProcessor_keyPairs p rest
      else PostProcessor_keyPairs p rest)"

definition PostProcessor_logFlaggedResult :: "PostProcessor \<Rightarrow> string \<Rightarrow> Result \<Rightarrow> event list \<Rightarrow> event list" where
  "PostProcessor_logFlaggedResult p postID result tr =
     tr @ [LogInfo ''Content was flagged by moderation''
             ([LStr ''post_id'', LStr postID, LStr ''severity_threshold'', LInt (thresholdValue p)]
              @ PostProcessor_keyPairs p result)]"

definition PostProcessor_moderatePost :: "PostProcessor \<Rightarrow> Post \<Rightarrow> event list \<Rightarrow> moderr option \<times> event list" where
  "PostProcessor_moderatePost p post tr =
     (if \<not> PostProcessor_shouldModerateUser p (UserId post) then (None, tr)
      else if \<not> shouldModerateChannel p (ChannelId post) then (None, tr)
      else if Message post = [] then (None, tr)
      else (case moderator p tr (Message post) of
              Inl err \<Rightarrow> (Some ErrModerationUnavailable, tr @ [ModerateText (Message post)])
            | Inr result \<Rightarrow>
                if PostProcessor_resultSeverityAboveThreshold p result
                then (Some ErrModerationRejection,
                      PostProcessor_logFlaggedResult p (PostId post) result
                        (tr @ [ModerateText (Message post)]))
                else (None, tr @ [ModerateText (Message post)])))"

text \<open>
  \<^verbatim>\<open>errors.Wrap(err, msg)\<close>: the error whose text is the message, a colon, and the text
  of the wrapped error.
\<close>

definition Wrap :: "string \<Rightarrow> string \<Rightarrow> string" where
  "Wrap err msg = msg @ '': '' @ err"

text \<open>The two posts the bot writes after a takedown.\<close>

definition channelNotice :: "PostProcessor \<Rightarrow> Post \<Rightarrow> Post" where
  "channelNotice p post =
     \<lparr>PostId = [], UserId = botID p, ChannelId = ChannelId post, RootId = RootId post,
      Message = channelNotificationTemplate\<rparr>"

definition dmNotice :: "PostProcessor \<Rightarrow> string \<Rightarrow> Post \<Rightarrow> Post" where
  "dmNotice p dmChannelId post =
     \<lparr>PostId = [], UserId = botID p, ChannelId = dmChannelId, RootId = [],
      Message = dmNotification (Message post)\<rparr>"

definition reportModerationEvent :: "API \<Rightarrow> PostProcessor \<Rightarrow> Post \<Rightarrow> event list \<Rightarrow> string option \<times> event list" where
  "reportModerationEvent api p post tr =
     (case CreatePost_result api tr (channelNotice p post) of
        Some err \<Rightarrow>
          (Some (Wrap err ''failed to post channel notification''),
           tr @ [CreatePost (channelNotice p post)])
      | None \<Rightarrow>
          (let tr1 = tr @ [CreatePost (channelNotice p post)] in
           case GetDirectChannel_result api tr1 (botID p) (UserId post) of
             Inl err \<Rightarrow>
               (Some (Wrap err ''failed to create DM channel''),
                tr1 @ [GetDirectChannel (botID p) (UserId post)])
           | Inr dmChannelId \<Rightarrow>
               (let tr2 = tr1 @ [GetDirectChannel (botID p) (UserId post)] in
                case CreatePost_result api tr2 (dmNotice p dmChannelId post) of
                  Some err \<Rightarrow>
                    (Some (Wrap err ''failed to send DM notification''),
                     tr2 @ [CreatePost (dmNotice p dmChannelId post)])
                | None \<Rightarrow> (None, tr2 @ [CreatePost (dmNotice p dmChannelId post)]))))"

text \<open>
  The two statements of \<^verbatim>\<open>start\<close> that follow a violation: the deletion, then the
  report, each with its own log line on failure.
\<close>

definition deleteFlaggedPost :: "API \<Rightarrow> Post \<Rightarrow> event list \<Rightarrow> event list" where
  "deleteFlaggedPost api post tr =
     (case DeletePost_result api tr (PostId post) of
        Some err \<Rightarrow>
          tr @ [DeletePost (PostId post),
                LogError ''Failed to delete post flagged by content moderation''
                  [LStr ''post_id'', LStr (PostId post), LStr ''err'', LStr err]]
      | None \<Rightarrow> tr @ [DeletePost (PostId post)])"

definition reportFlaggedPost :: "API \<Rightarrow> PostProcessor \<Rightarrow> Post \<Rightarrow> event list \<Rightarrow> event list" where
  "reportFlaggedPost api p post tr =
     (case reportModerationEvent api p post tr of
        (Some err, tr') \<Rightarrow>
          tr' @ [LogError ''Failed report content moderation event''
                   [LStr ''post_id'', LStr (PostId post), LStr ''err'', LStr err]]
      | (None, tr') \<Rightarrow> tr')"

definition takeDown :: "API \<Rightarrow> PostProcessor \<Rightarrow> Post \<Rightarrow> event list \<Rightarrow> event list" where
  "takeDown api p post tr = reportFlaggedPost api p post (deleteFlaggedPost api post tr)"

text \<open>One turn of the loop of \<^verbatim>\<open>start\<close>, from the pause on, for the post just received.\<close>

definition processPost :: "API \<Rightarrow> PostProcessor \<Rightarrow> Post \<Rightarrow> event list \<Rightarrow> event list" where
  "processPost api p post tr =
     (case PostProcessor_moderatePost p post (tr @ [Sleep processingInterval]) of
        (None, tr1) \<Rightarrow> tr1
      | (Some ErrModerationUnavailable, tr1) \<Rightarrow>
          tr1 @ [LogError ''Content moderation error''
                   [LStr ''err'', LStr (PostProcessor_Error ErrModerationUnavailable),
                    LStr ''post_id'', LStr (PostId post), LStr ''user_id'', LStr (UserId post)]]
      | (Some ErrModerationRejection, tr1) \<Rightarrow> takeDown api p post tr1)"

subsection \<open>The queue\<close>

text \<open>
  The buffered channel \<^verbatim>\<open>postsCh\<close>, made once with capacity \<^verbatim>\<open>maxProcessingQueueSize\<close>:
  the posts it holds, oldest first, and whether \<^verbatim>\<open>close\<close> was called on it.
\<close>

record chan =
  buf :: "Post list"
  closed :: bool

definition make_chan :: chan where
  "make_chan = \<lparr>buf = [], closed = False\<rparr>"

text \<open>
  A send on the channel: on a closed channel it panics; with room in the buffer it
  appends; on a full buffer the sender would wait.
\<close>

datatype send_result = Sent chan | SendBlocks | SendPanics string

definition chan_send :: "chan \<Rightarrow> Post \<Rightarrow> send_result" where
  "chan_send ch post =
     (if closed ch then SendPanics ''send on closed channel''
      else if length (buf ch) < maxProcessingQueueSize then Sent (ch\<lparr>buf := buf ch @ [post]\<rparr>)
      else SendBlocks)"

text \<open>
  A receive: the oldest buffered post; on an empty buffer the second result is false
  when the channel is closed, and the receiver waits otherwise.
\<close>

datatype recv_result = Received Post chan | RecvClosed | RecvBlocks

definition chan_recv :: "chan \<Rightarrow> recv_result" where
  "chan_recv ch =
     (case buf ch of
        post # rest \<Rightarrow> Received post (ch\<lparr>buf := rest\<rparr>)
      | [] \<Rightarrow> if closed ch then RecvClosed else RecvBlocks)"

text \<open>
  \<^verbatim>\<open>newPostProcessor\<close>: with a nil moderator the error, otherwise the processor and
  its fresh channel.
\<close>

definition newPostProcessor :: "string \<Rightarrow> Moderator option \<Rightarrow> int \<Rightarrow> string set \<Rightarrow> string set \<Rightarrow> moderr + PostProcessor \<times> chan" where
  "newPostProcessor bid m threshold users channels =
     (case m of
        None \<Rightarrow> Inl ErrModerationUnavailable
      | Some md \<Rightarrow>
          Inr (\<lparr>botID = bid, moderator = md, thresholdValue = threshold,
                excludedUsers = users, excludedChannels = channels\<rparr>,
               make_chan))"

text \<open>\<^verbatim>\<open>close\<close> panics on a channel that is closed already.\<close>

definition stop :: "chan \<Rightarrow> string + chan" where
  "stop ch = (if closed ch then Inl ''close of closed channel'' else Inr (ch\<lparr>closed := True\<rparr>))"

text \<open>
  How a call ends for its caller: it returns, it never comes back (the goroutine waits on
  the channel), or a panic leaves it.
\<close>

datatype outcome = Returned | Blocked | Panicked string

text \<open>
  The \<^verbatim>\<open>select\<close> of \<^verbatim>\<open>queuePostForProcessing\<close>: the send when it can proceed (a send on
  a closed channel proceeds, by panicking), the \<^verbatim>\<open>default\<close> branch when the send would
  wait.
\<close>

definition queuePostForProcessing_select :: "Post \<Rightarrow> chan \<times> event list \<Rightarrow> outcome \<times> chan \<times> event list" where
  "queuePostForProcessing_select post st =
     (case st of (ch, tr) \<Rightarrow>
        (case chan_send ch post of
           Sent ch' \<Rightarrow> (Returned, ch', tr)
         | SendPanics r \<Rightarrow> (Panicked r, ch, tr)
         | SendBlocks \<Rightarrow>
             (Returned, ch,
              tr @ [LogError ''Content moderation unable to analyze post: exceeded maximum post queue size''
                      [LStr ''post_id'', LStr (PostId post)]])))"

text \<open>The deferred function runs when the body is left; \<^verbatim>\<open>recover\<close> ends a panic.\<close>

definition queuePostForProcessing :: "Post \<Rightarrow> chan \<times> event list \<Rightarrow> outcome \<times> chan \<times> event list" where
  "queuePostForProcessing post st =
     (case queuePostForProcessing_select post st of
        (Panicked r, ch, tr) \<Rightarrow>
          (Returned, ch,
           tr @ [LogDebug ''Panic occurred while queueing post for processing''
                   [LStr ''post_id'', LStr (PostId post), LStr ''panic'', LStr r]])
      | (Returned, ch, tr) \<Rightarrow> (Returned, ch, tr)
      | (Blocked, ch, tr) \<Rightarrow> (Blocked, ch, tr))"

text \<open>
  The goroutine of \<^verbatim>\<open>start\<close>, run while no producer interferes: it takes the buffered
  posts in order and ends either for good (\<open>Returned\<close>, the channel is closed) or waiting
  for the next post (\<open>Blocked\<close>).
\<close>

function start :: "API \<Rightarrow> PostProcessor \<Rightarrow> chan \<times> event list \<Rightarrow> outcome \<times> chan \<times> event list" where
  "start api p (ch, tr) =
     (case chan_recv ch of
        RecvClosed \<Rightarrow> (Returned, ch, tr)
      | RecvBlocks \<Rightarrow> (Blocked, ch, tr)
      | Received post ch' \<Rightarrow> start api p (ch', processPost api p post tr))"
  by pat_completeness auto
termination
  by (relation "measure (\<lambda>(api, p, ch, tr). length (buf ch))")
     (auto simp: chan_recv_def split: list.splits if_splits)

declare start.simps [simp del]

text \<open>
  What a trace shows: the pauses taken, the posts whose deletion was requested, and the
  posts the bot asked the host to create, each in order.
\<close>

fun pauses :: "event list \<Rightarrow> int list" where
  "pauses [] = []"
| "pauses (Sleep d # tr) = d # pauses tr"
| "pauses (e # tr) = pauses tr"

fun deleted :: "event list \<Rightarrow> string list" where
  "deleted [] = []"
| "deleted (DeletePost i # tr) = i # deleted tr"
| "deleted (e # tr) = deleted tr"

fun created :: "event list \<Rightarrow> Post list" where
  "created [] = []"
| "created (CreatePost q # tr) = q # created tr"
| "created (e # tr) = created tr"

fun scored :: "event list \<Rightarrow> string list" where
  "scored [] = []"
| "scored (ModerateText t # tr) = t # scored tr"
| "scored (e # tr) = scored tr"

section \<open>The group-search endpoint (\<^verbatim>\<open>api.go\<close>)\<close>

text \<open>
  A request is its method, its path, its headers and its query parameters;
  \<^verbatim>\<open>Header.Get\<close> and \<^verbatim>\<open>Query().Get\<close> give the empty string for a missing key.
  \<open>url_String r p\<close> is what \<^verbatim>\<open>String()\<close> prints for the URL of the request once its
  path is replaced by \<open>p\<close>.
\<close>

record Request =
  req_method :: string
  req_path :: string
  req_header :: "string \<rightharpoonup> string"
  req_query :: "string \<rightharpoonup> string"
  url_String :: "string \<Rightarrow> string"

definition Get :: "(string \<rightharpoonup> string) \<Rightarrow> string \<Rightarrow> string" where
  "Get m key = (case m key of None \<Rightarrow> [] | Some v \<Rightarrow> v)"

text \<open>
  An \<^verbatim>\<open>http.ResponseWriter\<close>: the status line once it is written (\<open>None\<close> before), the
  headers that go out with it, and the bytes of the body. The first \<^verbatim>\<open>WriteHeader\<close>
  fixes status and headers; a later one changes nothing; a \<^verbatim>\<open>Write\<close> before any
  \<^verbatim>\<open>WriteHeader\<close> sends status 200 first.
\<close>

record ResponseWriter =
  status :: "nat option"
  header :: "string \<rightharpoonup> string"
  body :: string

definition new_ResponseWriter :: ResponseWriter where
  "new_ResponseWriter = \<lparr>status = None, header = Map.empty, body = []\<rparr>"

definition Header_Set :: "ResponseWriter \<Rightarrow> string \<Rightarrow> string \<Rightarrow> ResponseWriter" where
  "Header_Set w key v = (if status w = None then w\<lparr>header := (header w)(key \<mapsto> v)\<rparr> else w)"

definition Header_Del :: "ResponseWriter \<Rightarrow> string \<Rightarrow> ResponseWriter" where
  "Header_Del w key = (if status w = None then w\<lparr>header := (header w)(key := None)\<rparr> else w)"

definition WriteHeader :: "ResponseWriter \<Rightarrow> nat \<Rightarrow> ResponseWriter" where
  "WriteHeader w code = (if status w = None then w\<lparr>status := Some code\<rparr> else w)"

definition Write :: "ResponseWriter \<Rightarrow> string \<Rightarrow> ResponseWriter" where
  "Write w bytes = (let w' = WriteHeader w 200 in w'\<lparr>body := body w' @ bytes\<rparr>)"

text \<open>\<^verbatim>\<open>http.Error\<close> of the standard library: plain-text headers, the status, the text and a line feed.\<close>

definition http_Error :: "ResponseWriter \<Rightarrow> string \<Rightarrow> nat \<Rightarrow> ResponseWriter" where
  "http_Error w msg code =
     Write (WriteHeader
              (Header_Set
                 (Header_Set (Header_Del w ''Content-Length'')
                    ''Content-Type'' ''text/plain; charset=utf-8'')
                 ''X-Content-Type-Options'' ''nosniff'')
              code)
       (msg @ [CHR 0x0A])"

definition StatusMovedPermanently :: nat where "StatusMovedPermanently = 301"
definition StatusBadRequest :: nat where "StatusBadRequest = 400"
definition StatusUnauthorized :: nat where "StatusUnauthorized = 401"
definition StatusNotFound :: nat where "StatusNotFound = 404"
definition StatusMethodNotAllowed :: nat where "StatusMethodNotAllowed = 405"
definition StatusInternalServerError :: nat where "StatusInternalServerError = 500"

text \<open>
  \<^verbatim>\<open>strings.TrimSpace\<close> removes the leading and trailing characters for which
  \<^verbatim>\<open>unicode.IsSpace\<close> holds. Strings are byte lists, so each such character is listed
  by its UTF-8 encoding: the six ASCII ones, U+0085, U+00A0, U+1680, U+2000 to U+200A,
  U+2028, U+2029, U+202F, U+205F and U+3000. Bytes that decode to no character, or to
  another one, stop the trimming.
\<close>

definition whiteSpace :: "string list" where
  "whiteSpace =
     [[CHR 0x09], [CHR 0x0A], [CHR 0x0B], [CHR 0x0C], [CHR 0x0D], [CHR 0x20],
      [CHR 0xC2, CHR 0x85], [CHR 0xC2, CHR 0xA0],
      [CHR 0xE1, CHR 0x9A, CHR 0x80],
      [CHR 0xE2, CHR 0x80, CHR 0x80], [CHR 0xE2, CHR 0x80, CHR 0x81],
      [CHR 0xE2, CHR 0x80, CHR 0x82], [CHR 0xE2, CHR 0x80, CHR 0x83],
      [CHR 0xE2, CHR 0x80, CHR 0x84], [CHR 0xE2, CHR 0x80, CHR 0x85],
      [CHR 0xE2, CHR 0x80, CHR 0x86], [CHR 0xE2, CHR 0x80, CHR 0x87],
      [CHR 0xE2, CHR 0x80, CHR 0x88], [CHR 0xE2, CHR 0x80, CHR 0x89],
      [CHR 0xE2, CHR 0x80, CHR 0x8A],
      [CHR 0xE2, CHR 0x80, CHR 0xA8], [CHR 0xE2, CHR 0x80, CHR 0xA9],
      [CHR 0xE2, CHR 0x80, CHR 0xAF], [CHR 0xE2, CHR 0x81, CHR 0x9F],
      [CHR 0xE3, CHR 0x80, CHR 0x80]]"

text \<open>
  The width in bytes of the white space character a string starts with, zero when it
  starts with none; and the string without its leading white space.
\<close>

definition leadingWidth :: "string list \<Rightarrow> string \<Rightarrow> nat" where
  "leadingWidth ws s =
     (case find (\<lambda>w. w \<noteq> [] \<and> take (length w) s = w) ws of
        None \<Rightarrow> 0
      | Some w \<Rightarrow> length w)"

function trimLeading :: "string list \<Rightarrow> string \<Rightarrow> string" where
  "trimLeading ws s = (if leadingWidth ws s = 0 then s else trimLeading ws (drop (leadingWidth ws s) s))"
  by pat_completeness auto
termination
proof (relation "measure (\<lambda>(ws, s). length s)")
  fix ws :: "string list" and s :: string
  assume "leadingWidth ws s \<noteq> 0"
  then obtain w where w: "w \<noteq> []" "take (length w) s = w" "leadingWidth ws s = length w"
    by (auto simp: leadingWidth_def find_Some_iff split: option.splits)
  from w(1,2) have "s \<noteq> []" by auto
  with w show "((ws, drop (leadingWidth ws s) s), (ws, s)) \<in> measure (\<lambda>(ws, s). length s)"
    by simp
qed simp

declare trimLeading.simps [simp del]

text \<open>Leading white space goes first, then trailing white space, found from the end.\<close>

definition TrimSpace :: "string \<Rightarrow> string" where
  "TrimSpace s = rev (trimLeading (map rev whiteSpace) (rev (trimLeading whiteSpace s)))"

text \<open>
  What the handler needs besides the request: the host's permission check (for the
  permission \<^verbatim>\<open>model.PermissionManageSystem\<close>), the group store's prefix search
  (\<open>Inl\<close> is its error) and the JSON encoding of its result, written with a line feed
  by \<^verbatim>\<open>Encode\<close>.
\<close>

record 'g Services =
  HasPermissionTo_ManageSystem :: "string \<Rightarrow> bool"
  SearchLDAPGroupsByPrefix_result :: "event list \<Rightarrow> string \<Rightarrow> string + 'g list"
  json_Encode :: "'g list \<Rightarrow> string"

definition searchLDAPGroups :: "'g Services \<Rightarrow> Request \<Rightarrow> ResponseWriter \<times> event list \<Rightarrow> ResponseWriter \<times> event list" where
  "searchLDAPGroups sv r st =
     (case st of (w, tr) \<Rightarrow>
        (let prefix = TrimSpace (Get (req_query r) ''prefix'') in
         if prefix = [] then (http_Error w ''missing search prefix'' StatusBadRequest, tr)
         else (case SearchLDAPGroupsByPrefix_result sv tr prefix of
                 Inl err \<Rightarrow>
                   (http_Error w ''failed to search groups'' StatusInternalServerError,
                    tr @ [SearchLDAPGroupsByPrefix prefix,
                          LogError ''failed to search groups'' [LStr ''error'', LStr err]])
               | Inr groups \<Rightarrow>
                   (Write (Header_Set w ''Content-Type'' ''application/json'') (json_Encode sv groups),
                    tr @ [SearchLDAPGroupsByPrefix prefix]))))"

text \<open>
  \<^verbatim>\<open>cleanPath\<close> of \<^verbatim>\<open>gorilla/mux\<close>: the path made rooted and passed through
  \<^verbatim>\<open>path.Clean\<close> (empty and \<^verbatim>\<open>.\<close> elements dropped, \<^verbatim>\<open>..\<close> dropping the element
  before it, and nothing at the root), with a trailing slash put back.
\<close>

fun splitPath :: "string \<Rightarrow> string list" where
  "splitPath [] = [[]]"
| "splitPath (c # s) =
     (if c = CHR ''/'' then [] # splitPath s
      else (case splitPath s of seg # segs \<Rightarrow> (c # seg) # segs | [] \<Rightarrow> [[c]]))"

fun cleanSegments :: "string list \<Rightarrow> string list \<Rightarrow> string list" where
  "cleanSegments stack [] = rev stack"
| "cleanSegments stack (seg # segs) =
     (if seg = [] \<or> seg = ''.'' then cleanSegments stack segs
      else if seg = ''..'' then cleanSegments (tl stack) segs
      else cleanSegments (seg # stack) segs)"

definition path_Clean_rooted :: "string \<Rightarrow> string" where
  "path_Clean_rooted p =
     (case cleanSegments [] (splitPath p) of
        [] \<Rightarrow> ''/''
      | segs \<Rightarrow> concat (map (\<lambda>seg. CHR ''/'' # seg) segs))"

definition cleanPath :: "string \<Rightarrow> string" where
  "cleanPath p0 =
     (if p0 = [] then ''/''
      else (let p = (if hd p0 \<noteq> CHR ''/'' then CHR ''/'' # p0 else p0);
                np = path_Clean_rooted p
            in if last p = CHR ''/'' \<and> np \<noteq> ''/'' then np @ ''/'' else np))"

text \<open>
  The router of \<^verbatim>\<open>ServeHTTP\<close> has one route, for the method GET. As
  \<^verbatim>\<open>gorilla/mux\<close> does, it redirects a path that is not clean with 301, answers
  another path with 404 and another method on the path with 405.
\<close>

definition router_ServeHTTP :: "'g Services \<Rightarrow> Request \<Rightarrow> ResponseWriter \<times> event list \<Rightarrow> ResponseWriter \<times> event list" where
  "router_ServeHTTP sv r st =
     (case st of (w, tr) \<Rightarrow>
        if cleanPath (req_path r) \<noteq> req_path r
        then (WriteHeader (Header_Set w ''Location'' (url_String r (cleanPath (req_path r))))
                StatusMovedPermanently, tr)
        else if req_path r = ''/api/v1/groups/search''
        then (if req_method r = ''GET'' then searchLDAPGroups sv r (w, tr)
              else (WriteHeader w StatusMethodNotAllowed, tr))
        else (http_Error w ''404 page not found'' StatusNotFound, tr))"

definition ServeHTTP :: "'g Services \<Rightarrow> Request \<Rightarrow> ResponseWriter \<times> event list \<Rightarrow> ResponseWriter \<times> event list" where
  "ServeHTTP sv r st =
     (case st of (w, tr) \<Rightarrow>
        (let userID = Get (req_header r) ''Mattermost-User-ID'' in
         if userID = [] then (http_Error w ''Not authorized'' StatusUnauthorized, tr)
         else (let w1 = (if \<not> HasPermissionTo_ManageSystem sv userID
                         then http_Error w ''Not authorized'' StatusUnauthorized
                         else w)
               in router_ServeHTTP sv r (w1, tr))))"

section \<open>Example values\<close>

text \<open>
  A post, three scoring providers (one that flags, one that does not, one that fails), and
  a worker and a gate with threshold 50 and no exemptions.
\<close>

definition example_post :: Post where
  "example_post = \<lparr>PostId = ''p1'', UserId = ''u1'', ChannelId = ''c1'', RootId = ''r1'', Message = ''some text''\<rparr>"

definition hate80 :: Moderator where
  "hate80 tr text = Inr [(''hate'', 80)]"

definition mild :: Moderator where
  "mild tr text = Inr [(''hate'', 10), (''violence'', 20)]"

definition failing :: Moderator where
  "failing tr text = Inl ''context deadline exceeded''"

definition example_processor :: "Moderator \<Rightarrow> PostProcessor" where
  "example_processor m = \<lparr>botID = ''bot'', moderator = m, thresholdValue = 50, excludedUsers = {}, excludedChannels = {}\<rparr>"

definition example_plugin :: "Moderator \<Rightarrow> Plugin" where
  "example_plugin m = \<lparr>plugin_moderator = Some m, ModerateAllUsers = True, plugin_thresholdValue = 50, targetUsers = {}\<rparr>"

definition example_api :: API where
  "example_api =
     \<lparr>DeletePost_result = (\<lambda>tr i. None), CreatePost_result = (\<lambda>tr q. None),
      GetDirectChannel_result = (\<lambda>tr a b. Inr ''dm1'')\<rparr>"

text \<open>A post written by the bot, a queue at capacity, and hosts that fail one call each.\<close>

definition bot_post :: Post where
  "bot_post = \<lparr>PostId = ''p2'', UserId = ''bot'', ChannelId = ''c1'', RootId = [], Message = ''some text''\<rparr>"

definition full_queue :: "bool \<Rightarrow> chan" where
  "full_queue c = \<lparr>buf = replicate 10000 example_post, closed = c\<rparr>"

definition delete_fails_api :: API where
  "delete_fails_api = example_api\<lparr>DeletePost_result := (\<lambda>tr i. Some ''post not found'')\<rparr>"

definition notice_fails_api :: API where
  "notice_fails_api =
     example_api\<lparr>CreatePost_result :=
       (\<lambda>tr q. if Message q = channelNotificationTemplate then Some ''channel is archived'' else None)\<rparr>"

definition dm_fails_api :: API where
  "dm_fails_api =
     example_api\<lparr>CreatePost_result :=
       (\<lambda>tr q. if ChannelId q = ''dm1'' then Some ''cannot post'' else None)\<rparr>"

definition lookup_fails_api :: API where
  "lookup_fails_api =
     example_api\<lparr>GetDirectChannel_result := (\<lambda>tr a b. Inl ''user is deactivated'')\<rparr>"

text \<open>
  A store with one group per prefix, groups written as JSON strings, and a host for
  which only the user \<open>admin\<close> manages the system.
\<close>

definition example_services :: "string Services" where
  "example_services =
     \<lparr>HasPermissionTo_ManageSystem = (\<lambda>userID. userID = ''admin''),
      SearchLDAPGroupsByPrefix_result = (\<lambda>tr prefix. Inr [prefix @ ''-team'']),
      json_Encode = (\<lambda>groups. ''['' @ concat (map (\<lambda>g. [CHR 0x22] @ g @ [CHR 0x22]) groups) @ '']'' @ [CHR 0x0A])\<rparr>"

definition search_request :: "string \<Rightarrow> string \<Rightarrow> Request" where
  "search_request userID prefix =
     \<lparr>req_method = ''GET'', req_path = ''/api/v1/groups/search'',
      req_header = [''Mattermost-User-ID'' \<mapsto> userID],
      req_query = [''prefix'' \<mapsto> prefix],
      url_String = (\<lambda>p. p @ ''?prefix='' @ prefix)\<rparr>"

section \<open>Traces\<close>

lemma pauses_append: "pauses (a @ b) = pauses a @ pauses b"
  by (induction a rule: pauses.induct) simp_all

lemma deleted_append: "deleted (a @ b) = deleted a @ deleted b"
  by (induction a rule: deleted.induct) simp_all

lemma created_append: "created (a @ b) = created a @ created b"
  by (induction a rule: created.induct) simp_all

lemma scored_append: "scored (a @ b) = scored a @ scored b"
  by (induction a rule: scored.induct) simp_all

lemma PostProcessor_above_iff:
  "PostProcessor_resultSeverityAboveThreshold p result \<longleftrightarrow> (\<exists>(category, severity) \<in> set result. severity \<ge> thresholdValue p)"
  by (induction result) auto

lemma Plugin_above_iff:
  "Plugin_resultSeverityAboveThreshold P result \<longleftrightarrow> (\<exists>(category, severity) \<in> set result. severity \<ge> plugin_thresholdValue P)"
  by (induction result) auto

lemma created_PostProcessor_moderatePost:
  "created (snd (PostProcessor_moderatePost p post tr)) = created tr"
  by (simp add: PostProcessor_moderatePost_def PostProcessor_logFlaggedResult_def created_append
      split: sum.splits)

lemma deleted_PostProcessor_moderatePost:
  "deleted (snd (PostProcessor_moderatePost p post tr)) = deleted tr"
  by (simp add: PostProcessor_moderatePost_def PostProcessor_logFlaggedResult_def deleted_append
      split: sum.splits)

lemma pauses_PostProcessor_moderatePost:
  "pauses (snd (PostProcessor_moderatePost p post tr)) = pauses tr"
  by (simp add: PostProcessor_moderatePost_def PostProcessor_logFlaggedResult_def pauses_append
      split: sum.splits)

lemma created_Plugin_moderatePost:
  "created (snd (Plugin_moderatePost P post tr)) = created tr"
  by (simp add: Plugin_moderatePost_def Plugin_logFlaggedResult_def created_append
      split: sum.splits option.splits)

lemma deleted_Plugin_moderatePost:
  "deleted (snd (Plugin_moderatePost P post tr)) = deleted tr"
  by (simp add: Plugin_moderatePost_def Plugin_logFlaggedResult_def deleted_append
      split: sum.splits option.splits)

lemma pauses_reportModerationEvent:
  "pauses (snd (reportModerationEvent api p post tr)) = pauses tr"
  by (simp add: reportModerationEvent_def Let_def pauses_append split: option.splits sum.splits)

lemma pauses_takeDown: "pauses (takeDown api p post tr) = pauses tr"
proof -
  have d: "pauses (deleteFlaggedPost api post tr) = pauses tr"
    by (simp add: deleteFlaggedPost_def pauses_append split: option.splits)
  have r: "pauses (reportFlaggedPost api p post tr') = pauses tr'" for tr'
  proof (cases "reportModerationEvent api p post tr'")
    case (Pair e tr2)
    with pauses_reportModerationEvent [of api p post tr'] have "pauses tr2 = pauses tr'"
      by simp
    with Pair show ?thesis
      by (cases e) (simp_all add: reportFlaggedPost_def pauses_append)
  qed
  show ?thesis by (simp add: takeDown_def d r)
qed

lemma pauses_processPost:
  "pauses (processPost api p post tr) = pauses tr @ [processingInterval]"
proof (cases "PostProcessor_moderatePost p post (tr @ [Sleep processingInterval])")
  case (Pair e tr1)
  with pauses_PostProcessor_moderatePost [of p post "tr @ [Sleep processingInterval]"]
  have t: "pauses tr1 = pauses tr @ [processingInterval]"
    by (simp add: pauses_append)
  show ?thesis
  proof (cases e)
    case None
    with Pair t show ?thesis by (simp add: processPost_def)
  next
    case (Some err)
    with Pair t show ?thesis
      by (cases err) (simp_all add: processPost_def pauses_append pauses_takeDown)
  qed
qed

lemma pauses_start:
  "pauses (snd (snd (start api p (ch, tr)))) =
     pauses tr @ replicate (length (buf ch)) processingInterval"
proof (induction api p "(ch, tr)" arbitrary: ch tr rule: start.induct)
  case (1 api p ch tr)
  show ?case
  proof (cases "buf ch")
    case Nil
    then show ?thesis by (subst start.simps) (simp add: chan_recv_def)
  next
    case (Cons post rest)
    then have r: "chan_recv ch = Received post (ch\<lparr>buf := rest\<rparr>)"
      by (simp add: chan_recv_def)
    show ?thesis
      using "1" [OF r] Cons
      by (subst start.simps) (simp add: r pauses_processPost replicate_append_same)
  qed
qed

lemma scored_Plugin_moderatePost:
  "scored (snd (Plugin_moderatePost P post tr)) = scored tr \<longleftrightarrow>
     (plugin_moderator P = None \<or> \<not> Plugin_shouldModerateUser P (UserId post) \<or> Message post = [])"
  by (simp add: Plugin_moderatePost_def Plugin_logFlaggedResult_def scored_append
      split: sum.splits option.splits)

lemma deleteFlaggedPost_shape:
  "\<exists>log. deleteFlaggedPost api post tr = tr @ DeletePost (PostId post) # log
     \<and> deleted log = [] \<and> created log = []"
  by (simp add: deleteFlaggedPost_def split: option.splits)

lemma deleted_deleteFlaggedPost:
  "deleted (deleteFlaggedPost api post tr) = deleted tr @ [PostId post]"
  by (simp add: deleteFlaggedPost_def deleted_append split: option.splits)

lemma created_deleteFlaggedPost:
  "created (deleteFlaggedPost api post tr) = created tr"
  by (simp add: deleteFlaggedPost_def created_append split: option.splits)

lemma deleted_reportFlaggedPost:
  "deleted (reportFlaggedPost api p post tr) = deleted tr"
  by (simp add: reportFlaggedPost_def reportModerationEvent_def Let_def deleted_append
      split: option.splits sum.splits)

lemma created_reportFlaggedPost:
  "\<exists>dms. created (reportFlaggedPost api p post tr) = created tr @ channelNotice p post # dms
     \<and> (dms = [] \<or> (\<exists>dm. dms = [dmNotice p dm post]))"
  by (auto simp: reportFlaggedPost_def reportModerationEvent_def Let_def created_append
      split: option.splits sum.splits)

lemma reportFlaggedPost_notice_fails:
  "CreatePost_result api tr (channelNotice p post) = Some err \<Longrightarrow>
     reportFlaggedPost api p post tr =
       tr @ [CreatePost (channelNotice p post),
             LogError ''Failed report content moderation event''
               [LStr ''post_id'', LStr (PostId post),
                LStr ''err'', LStr (''failed to post channel notification: '' @ err)]]"
  by (simp add: reportFlaggedPost_def reportModerationEvent_def Wrap_def)

lemma reportFlaggedPost_dm_fails:
  "CreatePost_result api tr (channelNotice p post) = None \<Longrightarrow>
   GetDirectChannel_result api (tr @ [CreatePost (channelNotice p post)]) (botID p) (UserId post) = Inr dm \<Longrightarrow>
   CreatePost_result api
     (tr @ [CreatePost (channelNotice p post), GetDirectChannel (botID p) (UserId post)])
     (dmNotice p dm post) = Some err \<Longrightarrow>
     reportFlaggedPost api p post tr =
       tr @ [CreatePost (channelNotice p post), GetDirectChannel (botID p) (UserId post),
             CreatePost (dmNotice p dm post),
             LogError ''Failed report content moderation event''
               [LStr ''post_id'', LStr (PostId post),
                LStr ''err'', LStr (''failed to send DM notification: '' @ err)]]"
  by (simp add: reportFlaggedPost_def reportModerationEvent_def Wrap_def Let_def)

lemma reportFlaggedPost_ok:
  "CreatePost_result api tr (channelNotice p post) = None \<Longrightarrow>
   GetDirectChannel_result api (tr @ [CreatePost (channelNotice p post)]) (botID p) (UserId post) = Inr dm \<Longrightarrow>
     created (reportFlaggedPost api p post tr) =
       created tr @ [channelNotice p post, dmNotice p dm post]"
  by (simp add: reportFlaggedPost_def reportModerationEvent_def Let_def created_append
      split: option.splits)

lemma reportFlaggedPost_starts:
  "\<exists>rest. reportFlaggedPost api p post tr = tr @ CreatePost (channelNotice p post) # rest"
  by (simp add: reportFlaggedPost_def reportModerationEvent_def Let_def
      split: option.splits sum.splits)

lemma processPost_violation:
  "PostProcessor_moderatePost p post (tr @ [Sleep processingInterval]) = (Some ErrModerationRejection, tr1) \<Longrightarrow>
     processPost api p post tr = takeDown api p post tr1"
  by (simp add: processPost_def)


lemma start_trace:
  "start api p (ch, tr) =
     (if closed ch then Returned else Blocked, ch\<lparr>buf := []\<rparr>,
      foldl (\<lambda>t q. processPost api p q t) tr (buf ch))"
proof (induction api p "(ch, tr)" arbitrary: ch tr rule: start.induct)
  case (1 api p ch tr)
  show ?case
  proof (cases "buf ch")
    case Nil
    then show ?thesis by (subst start.simps) (simp add: chan_recv_def)
  next
    case (Cons post rest)
    then have r: "chan_recv ch = Received post (ch\<lparr>buf := rest\<rparr>)"
      by (simp add: chan_recv_def)
    show ?thesis
      using "1" [OF r] Cons
      by (subst start.simps) (simp add: r)
  qed
qed

lemma reportFlaggedPost_no_dm:
  "CreatePost_result api tr (channelNotice p post) = Some e
   \<or> GetDirectChannel_result api (tr @ [CreatePost (channelNotice p post)]) (botID p) (UserId post) = Inl e' \<Longrightarrow>
     created (reportFlaggedPost api p post tr) = created tr @ [channelNotice p post]"
  by (auto simp: reportFlaggedPost_def reportModerationEvent_def Let_def created_append
      split: option.splits sum.splits)

section \<open>The threshold decision\<close>

text \<open>
  C1. For every severity score and threshold, \<^verbatim>\<open>resultSeverityAboveThreshold\<close> holds,
  on the worker and on the gate, exactly when some category's value is at least the
  threshold; it fails when every value is strictly below. When the provider is asked and
  answers with the score, the verdict of \<^verbatim>\<open>moderatePost\<close> is Violation in the first
  case and Clear in the second, on both paths.
\<close>

theorem severity_decision:
  "(PostProcessor_resultSeverityAboveThreshold p result \<longleftrightarrow>
      (\<exists>(category, severity) \<in> set result. severity \<ge> thresholdValue p))
   \<and> (Plugin_resultSeverityAboveThreshold P result \<longleftrightarrow>
      (\<exists>(category, severity) \<in> set result. severity \<ge> plugin_thresholdValue P))
   \<and> ((\<forall>(category, severity) \<in> set result. severity < thresholdValue p) \<longrightarrow>
        \<not> PostProcessor_resultSeverityAboveThreshold p result)
   \<and> ((\<forall>(category, severity) \<in> set result. severity < plugin_thresholdValue P) \<longrightarrow>
        \<not> Plugin_resultSeverityAboveThreshold P result)
   \<and> (PostProcessor_shouldModerateUser p (UserId post) \<and> shouldModerateChannel p (ChannelId post)
        \<and> Message post \<noteq> [] \<and> moderator p tr (Message post) = Inr result \<longrightarrow>
        verdict (fst (PostProcessor_moderatePost p post tr)) =
          (if \<exists>(category, severity) \<in> set result. severity \<ge> thresholdValue p
           then Violation else Clear))
   \<and> (plugin_moderator P = Some m \<and> Plugin_shouldModerateUser P (UserId post)
        \<and> Message post \<noteq> [] \<and> m tr (Message post) = Inr result \<longrightarrow>
        verdict (fst (Plugin_moderatePost P post tr)) =
          (if \<exists>(category, severity) \<in> set result. severity \<ge> plugin_thresholdValue P
           then Violation else Clear))"
proof -
  have a: "PostProcessor_resultSeverityAboveThreshold p result \<longleftrightarrow>
      (\<exists>(category, severity) \<in> set result. severity \<ge> thresholdValue p)"
    by (rule PostProcessor_above_iff)
  have b: "Plugin_resultSeverityAboveThreshold P result \<longleftrightarrow>
      (\<exists>(category, severity) \<in> set result. severity \<ge> plugin_thresholdValue P)"
    by (rule Plugin_above_iff)
  have c: "(\<forall>(category, severity) \<in> set result. severity < thresholdValue p) \<longrightarrow>
        \<not> PostProcessor_resultSeverityAboveThreshold p result"
    unfolding a by fastforce
  have d: "(\<forall>(category, severity) \<in> set result. severity < plugin_thresholdValue P) \<longrightarrow>
        \<not> Plugin_resultSeverityAboveThreshold P result"
    unfolding b by fastforce
  have e: "PostProcessor_shouldModerateUser p (UserId post) \<and> shouldModerateChannel p (ChannelId post)
        \<and> Message post \<noteq> [] \<and> moderator p tr (Message post) = Inr result \<longrightarrow>
        verdict (fst (PostProcessor_moderatePost p post tr)) =
          (if \<exists>(category, severity) \<in> set result. severity \<ge> thresholdValue p
           then Violation else Clear)"
    by (simp add: PostProcessor_moderatePost_def a)
  have f: "plugin_moderator P = Some m \<and> Plugin_shouldModerateUser P (UserId post)
        \<and> Message post \<noteq> [] \<and> m tr (Message post) = Inr result \<longrightarrow>
        verdict (fst (Plugin_moderatePost P post tr)) =
          (if \<exists>(category, severity) \<in> set result. severity \<ge> plugin_thresholdValue P
           then Violation else Clear)"
    by (simp add: Plugin_moderatePost_def b)
  from a b c d e f show ?thesis by blast
qed

theorem severity_decision_witness:
  "PostProcessor_resultSeverityAboveThreshold (example_processor hate80) [(''hate'', 80)]
   \<and> Plugin_resultSeverityAboveThreshold (example_plugin hate80) [(''hate'', 80)]
   \<and> PostProcessor_shouldModerateUser (example_processor hate80) (UserId example_post)
   \<and> shouldModerateChannel (example_processor hate80) (ChannelId example_post)
   \<and> Plugin_shouldModerateUser (example_plugin hate80) (UserId example_post)
   \<and> Message example_post \<noteq> []
   \<and> hate80 [] (Message example_post) = Inr [(''hate'', 80)]
   \<and> verdict (fst (PostProcessor_moderatePost (example_processor hate80) example_post [])) = Violation
   \<and> verdict (fst (Plugin_moderatePost (example_plugin hate80) example_post [])) = Violation
   \<and> \<not> PostProcessor_resultSeverityAboveThreshold (example_processor mild) [(''hate'', 10), (''violence'', 20)]
   \<and> \<not> Plugin_resultSeverityAboveThreshold (example_plugin mild) [(''hate'', 10), (''violence'', 20)]
   \<and> mild [] (Message example_post) = Inr [(''hate'', 10), (''violence'', 20)]
   \<and> verdict (fst (PostProcessor_moderatePost (example_processor mild) example_post [])) = Clear
   \<and> verdict (fst (Plugin_moderatePost (example_plugin mild) example_post [])) = Clear"
  using severity_decision [of "example_processor hate80" "[(''hate'', 80)]" "example_plugin hate80"
      example_post "[]" hate80]
    severity_decision [of "example_processor mild" "[(''hate'', 10), (''violence'', 20)]"
      "example_plugin mild" example_post "[]" mild]
  by (simp add: example_processor_def example_plugin_def example_post_def hate80_def mild_def
      PostProcessor_shouldModerateUser_def shouldModerateChannel_def Plugin_shouldModerateUser_def)

section \<open>Scoring failure\<close>

text \<open>
  C2. When the scoring call of a message fails, \<^verbatim>\<open>moderatePost\<close> returns the
  Unavailable verdict on both paths. The worker's turn for that message consists of the
  pause, the scoring call and one error log line; it requests no deletion and creates no
  post. The loop then goes on: the trace of \<^verbatim>\<open>start\<close> on a queue headed by that message
  is the three events followed by the turns for the rest of the queue, in order; with one
  more post queued and the queue closed, the worker takes the turn for that post next and
  ends with the queue empty.
\<close>

theorem scoring_failure_fails_open:
  "(PostProcessor_shouldModerateUser p (UserId post) \<and> shouldModerateChannel p (ChannelId post)
      \<and> Message post \<noteq> []
      \<and> moderator p (tr @ [Sleep processingInterval]) (Message post) = Inl err \<longrightarrow>
      verdict (fst (PostProcessor_moderatePost p post (tr @ [Sleep processingInterval]))) = Unavailable
      \<and> processPost api p post tr =
          tr @ [Sleep processingInterval, ModerateText (Message post),
                LogError ''Content moderation error''
                  [LStr ''err'', LStr ''moderation service is not available'',
                   LStr ''post_id'', LStr (PostId post), LStr ''user_id'', LStr (UserId post)]]
      \<and> deleted (processPost api p post tr) = deleted tr
      \<and> created (processPost api p post tr) = created tr
      \<and> start api p (\<lparr>buf = post # rest, closed = c\<rparr>, tr) =
          start api p (\<lparr>buf = rest, closed = c\<rparr>, processPost api p post tr)
      \<and> snd (snd (start api p (\<lparr>buf = post # rest, closed = c\<rparr>, tr))) =
          foldl (\<lambda>t q. processPost api p q t)
            (tr @ [Sleep processingInterval, ModerateText (Message post),
                  LogError ''Content moderation error''
                    [LStr ''err'', LStr ''moderation service is not available'',
                     LStr ''post_id'', LStr (PostId post), LStr ''user_id'', LStr (UserId post)]]) rest
      \<and> start api p (\<lparr>buf = [post, post2], closed = True\<rparr>, tr) =
          (Returned, \<lparr>buf = [], closed = True\<rparr>,
           processPost api p post2
             (tr @ [Sleep processingInterval, ModerateText (Message post),
                   LogError ''Content moderation error''
                     [LStr ''err'', LStr ''moderation service is not available'',
                      LStr ''post_id'', LStr (PostId post), LStr ''user_id'', LStr (UserId post)]])))
   \<and> (plugin_moderator P = Some m \<and> Plugin_shouldModerateUser P (UserId post)
      \<and> Message post \<noteq> [] \<and> m tr (Message post) = Inl err \<longrightarrow>
      verdict (fst (Plugin_moderatePost P post tr)) = Unavailable)"
proof -
  have sync: "plugin_moderator P = Some m \<and> Plugin_shouldModerateUser P (UserId post)
      \<and> Message post \<noteq> [] \<and> m tr (Message post) = Inl err \<longrightarrow>
      verdict (fst (Plugin_moderatePost P post tr)) = Unavailable"
    by (simp add: Plugin_moderatePost_def)
  have step: "start api p (\<lparr>buf = post # rest, closed = c\<rparr>, tr) =
      start api p (\<lparr>buf = rest, closed = c\<rparr>, processPost api p post tr)"
    by (subst start.simps) (simp add: chan_recv_def)
  have async: "verdict (fst (PostProcessor_moderatePost p post (tr @ [Sleep processingInterval]))) = Unavailable
      \<and> processPost api p post tr =
          tr @ [Sleep processingInterval, ModerateText (Message post),
                LogError ''Content moderation error''
                  [LStr ''err'', LStr ''moderation service is not available'',
                   LStr ''post_id'', LStr (PostId post), LStr ''user_id'', LStr (UserId post)]]
      \<and> deleted (processPost api p post tr) = deleted tr
      \<and> created (processPost api p post tr) = created tr
      \<and> snd (snd (start api p (\<lparr>buf = post # rest, closed = c\<rparr>, tr))) =
          foldl (\<lambda>t q. processPost api p q t)
            (tr @ [Sleep processingInterval, ModerateText (Message post),
                  LogError ''Content moderation error''
                    [LStr ''err'', LStr ''moderation service is not available'',
                     LStr ''post_id'', LStr (PostId post), LStr ''user_id'', LStr (UserId post)]]) rest
      \<and> start api p (\<lparr>buf = [post, post2], closed = True\<rparr>, tr) =
          (Returned, \<lparr>buf = [], closed = True\<rparr>,
           processPost api p post2
             (tr @ [Sleep processingInterval, ModerateText (Message post),
                   LogError ''Content moderation error''
                     [LStr ''err'', LStr ''moderation service is not available'',
                      LStr ''post_id'', LStr (PostId post), LStr ''user_id'', LStr (UserId post)]]))"
    if h: "PostProcessor_shouldModerateUser p (UserId post)" "shouldModerateChannel p (ChannelId post)"
      "Message post \<noteq> []" "moderator p (tr @ [Sleep processingInterval]) (Message post) = Inl err"
  proof -
    have m: "PostProcessor_moderatePost p post (tr @ [Sleep processingInterval]) =
        (Some ErrModerationUnavailable, tr @ [Sleep processingInterval, ModerateText (Message post)])"
      using h by (simp add: PostProcessor_moderatePost_def)
    have pp: "processPost api p post tr =
          tr @ [Sleep processingInterval, ModerateText (Message post),
                LogError ''Content moderation error''
                  [LStr ''err'', LStr ''moderation service is not available'',
                   LStr ''post_id'', LStr (PostId post), LStr ''user_id'', LStr (UserId post)]]"
      by (simp add: processPost_def m)
    show ?thesis
      by (simp add: m pp deleted_append created_append start_trace)
  qed
  from sync step async show ?thesis by blast
qed

theorem scoring_failure_fails_open_witness:
  "PostProcessor_shouldModerateUser (example_processor failing) (UserId example_post)
   \<and> shouldModerateChannel (example_processor failing) (ChannelId example_post)
   \<and> Plugin_shouldModerateUser (example_plugin failing) (UserId example_post)
   \<and> Message example_post \<noteq> []
   \<and> failing [Sleep processingInterval] (Message example_post) = Inl ''context deadline exceeded''
   \<and> verdict (fst (PostProcessor_moderatePost (example_processor failing) example_post
                  [Sleep processingInterval])) = Unavailable
   \<and> verdict (fst (Plugin_moderatePost (example_plugin failing) example_post [])) = Unavailable
   \<and> deleted (processPost example_api (example_processor failing) example_post []) = []
   \<and> created (processPost example_api (example_processor failing) example_post []) = []
   \<and> start example_api (example_processor failing)
         (\<lparr>buf = [example_post, bot_post], closed = True\<rparr>, []) =
       (Returned, \<lparr>buf = [], closed = True\<rparr>,
        [Sleep processingInterval, ModerateText ''some text'',
         LogError ''Content moderation error''
           [LStr ''err'', LStr ''moderation service is not available'',
            LStr ''post_id'', LStr ''p1'', LStr ''user_id'', LStr ''u1''],
         Sleep processingInterval])"
  using scoring_failure_fails_open [where p = "example_processor failing" and post = example_post
      and tr = "[]" and err = "''context deadline exceeded''" and api = example_api
      and rest = "[]" and c = False and ?post2.0 = bot_post
      and P = "example_plugin failing" and m = failing]
  by (simp add: example_processor_def example_plugin_def example_post_def failing_def bot_post_def
      PostProcessor_shouldModerateUser_def shouldModerateChannel_def Plugin_shouldModerateUser_def
      processPost_def PostProcessor_moderatePost_def)

section \<open>The pause of the worker\<close>

text \<open>
  C3. The interval \<^verbatim>\<open>processingInterval\<close> of the source is zero nanoseconds, not the
  120 milliseconds that one minute divided by the limit of 500 gives: the worker's pause
  before each post is zero, and 501 queued posts are all evaluated with pauses that sum
  to zero.
\<close>

theorem processingInterval_is_zero:
  "processingInterval = 0
   \<and> Minute div postsPerMinuteLimit = 120 * Millisecond
   \<and> pauses (processPost api p post tr) = pauses tr @ [0]
   \<and> sum_list (pauses (snd (snd (start api p (\<lparr>buf = replicate 501 post, closed = True\<rparr>, []))))) = 0"
proof -
  have z: "processingInterval = 0"
    by (simp add: processingInterval_def postsPerMinuteLimit_def)
  have m: "Minute div postsPerMinuteLimit = 120 * Millisecond"
    by (simp add: Minute_def postsPerMinuteLimit_def Millisecond_def)
  show ?thesis
    by (simp add: m pauses_processPost pauses_start z sum_list_replicate)
qed

section \<open>Authorization of the group search\<close>

lemma TrimSpace_dev: "TrimSpace ''dev'' = ''dev''"
  by (simp add: TrimSpace_def trimLeading.simps leadingWidth_def whiteSpace_def)

lemma cleanPath_route: "cleanPath ''/api/v1/groups/search'' = ''/api/v1/groups/search''"
  by (simp add: cleanPath_def path_Clean_rooted_def)

text \<open>
  C4. A request to the group-search endpoint by a logged-in user who does not manage the
  system: \<^verbatim>\<open>ServeHTTP\<close> writes the 401 answer and, having no \<^verbatim>\<open>return\<close> after it,
  goes on to the router. The search is performed, and its result is written after the
  error text, under the status 401.
\<close>

theorem search_runs_for_non_admin:
  "\<not> HasPermissionTo_ManageSystem example_services ''user1''
   \<and> status (fst (ServeHTTP example_services (search_request ''user1'' ''dev'') (new_ResponseWriter, []))) = Some 401
   \<and> body (fst (ServeHTTP example_services (search_request ''user1'' ''dev'') (new_ResponseWriter, []))) =
       ''Not authorized'' @ [CHR 0x0A] @ ''['' @ [CHR 0x22] @ ''dev-team'' @ [CHR 0x22] @ '']'' @ [CHR 0x0A]
   \<and> snd (ServeHTTP example_services (search_request ''user1'' ''dev'') (new_ResponseWriter, [])) =
       [SearchLDAPGroupsByPrefix ''dev'']"
  by (simp add: ServeHTTP_def router_ServeHTTP_def searchLDAPGroups_def example_services_def
      search_request_def new_ResponseWriter_def Get_def http_Error_def Write_def WriteHeader_def
      Header_Set_def Header_Del_def TrimSpace_dev cleanPath_route StatusUnauthorized_def Let_def)

text \<open>
  The sibling check of the same function does return: without a user id the answer is
  401 and the store is not asked. A user who manages the system gets 400 for a prefix
  that is empty after trimming, 500 when the search fails, and the encoded groups
  otherwise.
\<close>

lemma ServeHTTP_without_user:
  "Get (req_header r) ''Mattermost-User-ID'' = [] \<Longrightarrow>
     status (fst (ServeHTTP sv r (new_ResponseWriter, tr))) = Some 401
     \<and> snd (ServeHTTP sv r (new_ResponseWriter, tr)) = tr"
  by (simp add: ServeHTTP_def http_Error_def Write_def WriteHeader_def Header_Set_def
      Header_Del_def new_ResponseWriter_def StatusUnauthorized_def)

lemma ServeHTTP_for_admin:
  assumes "Get (req_header r) ''Mattermost-User-ID'' = userID" "userID \<noteq> []"
    "HasPermissionTo_ManageSystem sv userID"
    "req_path r = ''/api/v1/groups/search''" "req_method r = ''GET''"
  shows "TrimSpace (Get (req_query r) ''prefix'') = [] \<Longrightarrow>
           status (fst (ServeHTTP sv r (new_ResponseWriter, tr))) = Some 400
           \<and> snd (ServeHTTP sv r (new_ResponseWriter, tr)) = tr"
    and "TrimSpace (Get (req_query r) ''prefix'') \<noteq> [] \<Longrightarrow>
         SearchLDAPGroupsByPrefix_result sv tr (TrimSpace (Get (req_query r) ''prefix'')) = Inl err \<Longrightarrow>
           status (fst (ServeHTTP sv r (new_ResponseWriter, tr))) = Some 500"
    and "TrimSpace (Get (req_query r) ''prefix'') \<noteq> [] \<Longrightarrow>
         SearchLDAPGroupsByPrefix_result sv tr (TrimSpace (Get (req_query r) ''prefix'')) = Inr groups \<Longrightarrow>
           status (fst (ServeHTTP sv r (new_ResponseWriter, tr))) = Some 200
           \<and> body (fst (ServeHTTP sv r (new_ResponseWriter, tr))) = json_Encode sv groups"
  using assms
  by (simp_all add: ServeHTTP_def router_ServeHTTP_def searchLDAPGroups_def http_Error_def
      Write_def WriteHeader_def Header_Set_def Header_Del_def new_ResponseWriter_def
      StatusBadRequest_def StatusInternalServerError_def cleanPath_route Let_def)

section \<open>The steps after a violation\<close>

text \<open>
  C5, as stated, fails: when the host refuses the channel notice,
  \<^verbatim>\<open>reportModerationEvent\<close> returns at once, so the take-down consists of the deletion,
  the attempted channel notice and one log line. The direct channel is never asked for
  and no direct notice is attempted.
\<close>

theorem channel_notice_failure_ends_report:
  "takeDown notice_fails_api (example_processor hate80) example_post [] =
     [DeletePost ''p1'',
      CreatePost \<lparr>PostId = [], UserId = ''bot'', ChannelId = ''c1'', RootId = ''r1'',
                  Message = ''_A post with potentially offensive content was flagged and removed._''\<rparr>,
      LogError ''Failed report content moderation event''
        [LStr ''post_id'', LStr ''p1'',
         LStr ''err'', LStr ''failed to post channel notification: channel is archived'']]"
  by (simp add: takeDown_def deleteFlaggedPost_def reportFlaggedPost_def reportModerationEvent_def
      notice_fails_api_def example_api_def example_processor_def example_post_def
      channelNotice_def channelNotificationTemplate_def Wrap_def)

text \<open>
  C5, amended. After a Violation verdict the worker runs the take-down. The deletion is
  attempted first and the channel notice next, whether or not the deletion failed; a
  failed deletion is logged before the notice. A failed channel notice is logged and ends
  the take-down: the direct notice is not attempted. A failed direct notice is logged,
  after the channel notice that was already posted.
\<close>

theorem take_down_steps:
  "(PostProcessor_moderatePost p post (tr0 @ [Sleep processingInterval]) = (Some ErrModerationRejection, tr) \<longrightarrow>
      processPost api p post tr0 = takeDown api p post tr)
   \<and> (\<exists>log rest. takeDown api p post tr =
         tr @ DeletePost (PostId post) # log @ CreatePost (channelNotice p post) # rest)
   \<and> (DeletePost_result api tr (PostId post) = Some err \<longrightarrow>
        (\<exists>rest. takeDown api p post tr =
           tr @ DeletePost (PostId post)
              # LogError ''Failed to delete post flagged by content moderation''
                  [LStr ''post_id'', LStr (PostId post), LStr ''err'', LStr err]
              # CreatePost (channelNotice p post) # rest))
   \<and> (CreatePost_result api (deleteFlaggedPost api post tr) (channelNotice p post) = Some err \<longrightarrow>
        takeDown api p post tr =
          deleteFlaggedPost api post tr
          @ [CreatePost (channelNotice p post),
             LogError ''Failed report content moderation event''
               [LStr ''post_id'', LStr (PostId post),
                LStr ''err'', LStr (''failed to post channel notification: '' @ err)]])
   \<and> (CreatePost_result api (deleteFlaggedPost api post tr) (channelNotice p post) = None
        \<and> GetDirectChannel_result api
             (deleteFlaggedPost api post tr @ [CreatePost (channelNotice p post)])
             (botID p) (UserId post) = Inr dm
        \<and> CreatePost_result api
             (deleteFlaggedPost api post tr
              @ [CreatePost (channelNotice p post), GetDirectChannel (botID p) (UserId post)])
             (dmNotice p dm post) = Some err \<longrightarrow>
        takeDown api p post tr =
          deleteFlaggedPost api post tr
          @ [CreatePost (channelNotice p post), GetDirectChannel (botID p) (UserId post),
             CreatePost (dmNotice p dm post),
             LogError ''Failed report content moderation event''
               [LStr ''post_id'', LStr (PostId post),
                LStr ''err'', LStr (''failed to send DM notification: '' @ err)]])"
proof -
  obtain log where d: "deleteFlaggedPost api post tr = tr @ DeletePost (PostId post) # log"
    using deleteFlaggedPost_shape [of api post tr] by blast
  obtain rest where r: "reportFlaggedPost api p post (deleteFlaggedPost api post tr) =
      deleteFlaggedPost api post tr @ CreatePost (channelNotice p post) # rest"
    using reportFlaggedPost_starts [of api p post "deleteFlaggedPost api post tr"] by blast
  have a: "\<exists>log rest. takeDown api p post tr =
         tr @ DeletePost (PostId post) # log @ CreatePost (channelNotice p post) # rest"
    using d r by (auto simp: takeDown_def)
  have b: "\<exists>rest. takeDown api p post tr =
           tr @ DeletePost (PostId post)
              # LogError ''Failed to delete post flagged by content moderation''
                  [LStr ''post_id'', LStr (PostId post), LStr ''err'', LStr err]
              # CreatePost (channelNotice p post) # rest"
    if "DeletePost_result api tr (PostId post) = Some err"
    using that r by (auto simp: takeDown_def deleteFlaggedPost_def)
  show ?thesis
    using a b
    by (simp add: processPost_violation takeDown_def reportFlaggedPost_notice_fails
        reportFlaggedPost_dm_fails)
qed

theorem take_down_steps_witness:
  "PostProcessor_moderatePost (example_processor hate80) example_post ([] @ [Sleep processingInterval]) =
     (Some ErrModerationRejection,
      [Sleep processingInterval, ModerateText ''some text'',
       LogInfo ''Content was flagged by moderation''
         [LStr ''post_id'', LStr ''p1'', LStr ''severity_threshold'', LInt 50,
          LStr ''computed_severity_hate'', LInt 80]])
   \<and> DeletePost_result delete_fails_api [] (PostId example_post) = Some ''post not found''
   \<and> created (takeDown delete_fails_api (example_processor hate80) example_post []) =
       [channelNotice (example_processor hate80) example_post,
        dmNotice (example_processor hate80) ''dm1'' example_post]
   \<and> CreatePost_result notice_fails_api (deleteFlaggedPost notice_fails_api example_post [])
       (channelNotice (example_processor hate80) example_post) = Some ''channel is archived''
   \<and> created (takeDown notice_fails_api (example_processor hate80) example_post []) =
       [channelNotice (example_processor hate80) example_post]
   \<and> CreatePost_result dm_fails_api
       (deleteFlaggedPost dm_fails_api example_post []
        @ [CreatePost (channelNotice (example_processor hate80) example_post),
           GetDirectChannel ''bot'' ''u1''])
       (dmNotice (example_processor hate80) ''dm1'' example_post) = Some ''cannot post''
   \<and> created (takeDown dm_fails_api (example_processor hate80) example_post []) =
       [channelNotice (example_processor hate80) example_post,
        dmNotice (example_processor hate80) ''dm1'' example_post]"
  using take_down_steps [of "example_processor hate80" example_post "[]"
      "[Sleep processingInterval, ModerateText ''some text'',
        LogInfo ''Content was flagged by moderation''
         [LStr ''post_id'', LStr ''p1'', LStr ''severity_threshold'', LInt 50,
          LStr ''computed_severity_hate'', LInt 80]]" example_api "''x''" "''dm1''"]
    take_down_steps [of "example_processor hate80" example_post "[]" "[]" delete_fails_api
      "''post not found''" "''dm1''"]
    take_down_steps [of "example_processor hate80" example_post "[]" "[]" notice_fails_api
      "''channel is archived''" "''dm1''"]
    take_down_steps [of "example_processor hate80" example_post "[]" "[]" dm_fails_api
      "''cannot post''" "''dm1''"]
  by (simp add: takeDown_def deleteFlaggedPost_def reportFlaggedPost_def reportModerationEvent_def
      delete_fails_api_def notice_fails_api_def dm_fails_api_def example_api_def
      example_processor_def example_post_def hate80_def
      channelNotice_def dmNotice_def channelNotificationTemplate_def dmNotification_def
      dmNotificationPrefix_def Wrap_def
      PostProcessor_moderatePost_def PostProcessor_shouldModerateUser_def shouldModerateChannel_def
      PostProcessor_logFlaggedResult_def)


section \<open>The bot's own posts\<close>

text \<open>
  C6, as stated, fails on the synchronous gate: \<^verbatim>\<open>Plugin\<close> has no bot identity, and
  with \<^verbatim>\<open>ModerateAllUsers\<close> set a post written by the bot is sent to the scoring
  provider and judged like any other.
\<close>

theorem bot_post_is_scored_at_gate:
  "UserId bot_post = botID (example_processor hate80)
   \<and> Plugin_moderatePost (example_plugin hate80) bot_post [] =
       (Some ErrModerationRejection,
        [ModerateText ''some text'',
         LogInfo ''Content was flagged by moderation''
           [LStr ''user_id'', LStr ''bot'', LStr ''threshold'', LInt 50, LStr ''hate'', LInt 80]])"
  by (simp add: bot_post_def example_processor_def example_plugin_def hate80_def
      Plugin_moderatePost_def Plugin_shouldModerateUser_def Plugin_logFlaggedResult_def)

text \<open>
  C6, amended. On the worker path a post written by the bot is Clear without a scoring
  call, whatever the exemption sets hold: the worker's turn is the pause alone. On the
  gate path there is no bot identity: a post goes unscored exactly when moderation is
  disabled, or not all users are moderated and the author is no moderation target, or the
  text is empty, and in each of these cases it is Clear.
\<close>

theorem bot_exempt_on_worker:
  "(UserId post = botID p \<longrightarrow>
      PostProcessor_moderatePost p post tr = (None, tr)
      \<and> processPost api p post tr = tr @ [Sleep processingInterval]
      \<and> scored (processPost api p post tr) = scored tr)
   \<and> (scored (snd (Plugin_moderatePost P post tr)) = scored tr \<longleftrightarrow>
        plugin_moderator P = None
        \<or> (\<not> ModerateAllUsers P \<and> UserId post \<notin> targetUsers P)
        \<or> Message post = [])
   \<and> (plugin_moderator P = None
        \<or> (\<not> ModerateAllUsers P \<and> UserId post \<notin> targetUsers P)
        \<or> Message post = [] \<longrightarrow>
        Plugin_moderatePost P post tr = (None, tr))"
proof -
  have w: "PostProcessor_moderatePost p post tr' = (None, tr')" if "UserId post = botID p" for tr'
    using that by (simp add: PostProcessor_moderatePost_def PostProcessor_shouldModerateUser_def)
  have g: "scored (snd (Plugin_moderatePost P post tr)) = scored tr \<longleftrightarrow>
        plugin_moderator P = None
        \<or> (\<not> ModerateAllUsers P \<and> UserId post \<notin> targetUsers P)
        \<or> Message post = []"
    unfolding scored_Plugin_moderatePost by (auto simp: Plugin_shouldModerateUser_def)
  have c: "plugin_moderator P = None
        \<or> (\<not> ModerateAllUsers P \<and> UserId post \<notin> targetUsers P)
        \<or> Message post = [] \<longrightarrow>
        Plugin_moderatePost P post tr = (None, tr)"
    by (auto simp: Plugin_moderatePost_def Plugin_shouldModerateUser_def split: option.splits)
  show ?thesis
    using w [of tr] w [of "tr @ [Sleep processingInterval]"] g c
    by (simp add: processPost_def scored_append)
qed

theorem bot_exempt_on_worker_witness:
  "UserId bot_post = botID (example_processor hate80)
   \<and> PostProcessor_moderatePost (example_processor hate80) bot_post [] = (None, [])
   \<and> scored (processPost example_api (example_processor hate80) bot_post []) = []
   \<and> \<not> ModerateAllUsers ((example_plugin hate80)\<lparr>ModerateAllUsers := False\<rparr>)
   \<and> UserId bot_post \<notin> targetUsers ((example_plugin hate80)\<lparr>ModerateAllUsers := False\<rparr>)
   \<and> Plugin_moderatePost ((example_plugin hate80)\<lparr>ModerateAllUsers := False\<rparr>) bot_post [] = (None, [])"
  using bot_exempt_on_worker [of bot_post "example_processor hate80" "[]" example_api
      "(example_plugin hate80)\<lparr>ModerateAllUsers := False\<rparr>"]
  by (simp add: bot_post_def example_processor_def example_plugin_def)

section \<open>The synchronous hooks\<close>

text \<open>
  C7. On a Clear verdict \<^verbatim>\<open>MessageWillBePosted\<close> returns no replacement (the post
  passes as it is) and \<^verbatim>\<open>MessageWillBeUpdated\<close> returns the new post unchanged. On a
  Violation or an Unavailable verdict both return the post with its text replaced by the
  fixed notice of that verdict, and the two notices differ. The rejection reason is always
  the empty string. The hooks request no deletion and create no post.
\<close>

theorem gate_rewrites_or_passes:
  "(verdict (fst (Plugin_moderatePost P newPost tr)) = Clear \<longrightarrow>
      fst (MessageWillBePosted P newPost tr) = None
      \<and> fst (MessageWillBeUpdated P newPost oldPost tr) = Some newPost)
   \<and> (verdict (fst (Plugin_moderatePost P newPost tr)) = Violation \<longrightarrow>
      fst (MessageWillBePosted P newPost tr) =
        Some (newPost\<lparr>Message := ''_This post has been redacted by the moderation plugin: potentially inappropriate content detected_''\<rparr>)
      \<and> fst (MessageWillBeUpdated P newPost oldPost tr) = fst (MessageWillBePosted P newPost tr))
   \<and> (verdict (fst (Plugin_moderatePost P newPost tr)) = Unavailable \<longrightarrow>
      fst (MessageWillBePosted P newPost tr) =
        Some (newPost\<lparr>Message := ''_This post has been redacted by the moderation plugin: moderation service is not available_''\<rparr>)
      \<and> fst (MessageWillBeUpdated P newPost oldPost tr) = fst (MessageWillBePosted P newPost tr))
   \<and> Plugin_Error ErrModerationRejection \<noteq> Plugin_Error ErrModerationUnavailable
   \<and> fst (snd (MessageWillBePosted P newPost tr)) = []
   \<and> fst (snd (MessageWillBeUpdated P newPost oldPost tr)) = []
   \<and> deleted (snd (snd (MessageWillBePosted P newPost tr))) = deleted tr
   \<and> created (snd (snd (MessageWillBePosted P newPost tr))) = created tr
   \<and> deleted (snd (snd (MessageWillBeUpdated P newPost oldPost tr))) = deleted tr
   \<and> created (snd (snd (MessageWillBeUpdated P newPost oldPost tr))) = created tr"
proof (cases "Plugin_moderatePost P newPost tr")
  case (Pair e tr')
  from created_Plugin_moderatePost [of P newPost tr] deleted_Plugin_moderatePost [of P newPost tr] Pair
  have t: "created tr' = created tr" "deleted tr' = deleted tr"
    by simp_all
  show ?thesis
  proof (cases e)
    case None
    with Pair t show ?thesis
      by (simp add: MessageWillBePosted_def MessageWillBeUpdated_def)
  next
    case (Some err)
    with Pair t show ?thesis
      by (cases err) (simp_all add: MessageWillBePosted_def MessageWillBeUpdated_def)
  qed
qed

theorem gate_rewrites_or_passes_witness:
  "verdict (fst (Plugin_moderatePost (example_plugin mild) example_post [])) = Clear
   \<and> MessageWillBePosted (example_plugin mild) example_post [] = (None, [], [ModerateText ''some text''])
   \<and> verdict (fst (Plugin_moderatePost (example_plugin hate80) example_post [])) = Violation
   \<and> fst (MessageWillBePosted (example_plugin hate80) example_post []) =
       Some (example_post\<lparr>Message := ''_This post has been redacted by the moderation plugin: potentially inappropriate content detected_''\<rparr>)
   \<and> verdict (fst (Plugin_moderatePost (example_plugin failing) example_post [])) = Unavailable
   \<and> fst (MessageWillBePosted (example_plugin failing) example_post []) =
       Some (example_post\<lparr>Message := ''_This post has been redacted by the moderation plugin: moderation service is not available_''\<rparr>)"
  using gate_rewrites_or_passes [of "example_plugin mild" example_post "[]" example_post]
    gate_rewrites_or_passes [of "example_plugin hate80" example_post "[]" example_post]
    gate_rewrites_or_passes [of "example_plugin failing" example_post "[]" example_post]
  by (simp add: example_plugin_def example_post_def mild_def hate80_def failing_def
      Plugin_moderatePost_def Plugin_shouldModerateUser_def Plugin_logFlaggedResult_def
      MessageWillBePosted_def)

section \<open>Admission to the queue\<close>

text \<open>
  C8, as stated, fails for one queue state: on a queue that is at capacity and closed,
  the send panics, the panic is recovered, and what is logged is the debug line of the
  recovery, not the error line of the overflow.
\<close>

theorem closed_full_queue_logs_debug:
  "length (buf (full_queue True)) = maxProcessingQueueSize
   \<and> queuePostForProcessing bot_post (full_queue True, []) =
       (Returned, full_queue True,
        [LogDebug ''Panic occurred while queueing post for processing''
           [LStr ''post_id'', LStr ''p2'', LStr ''panic'', LStr ''send on closed channel'']])"
  by (simp add: full_queue_def maxProcessingQueueSize_def queuePostForProcessing_def
      queuePostForProcessing_select_def chan_send_def bot_post_def)

text \<open>
  C8, amended. For every state of the queue, closed or not, \<^verbatim>\<open>queuePostForProcessing\<close>
  returns to its caller: it does not wait and no panic leaves it. When the queue holds
  its maximum of 10000 posts the new post is dropped and the queue is unchanged; when
  the queue is also not closed, the overflow is logged as an error. Below capacity, on
  an open queue, the post is appended.
\<close>

theorem enqueue_never_blocks:
  "fst (queuePostForProcessing post (ch, tr)) = Returned
   \<and> (length (buf ch) = maxProcessingQueueSize \<longrightarrow>
        fst (snd (queuePostForProcessing post (ch, tr))) = ch)
   \<and> (length (buf ch) = maxProcessingQueueSize \<and> \<not> closed ch \<longrightarrow>
        queuePostForProcessing post (ch, tr) =
          (Returned, ch,
           tr @ [LogError ''Content moderation unable to analyze post: exceeded maximum post queue size''
                   [LStr ''post_id'', LStr (PostId post)]]))
   \<and> (length (buf ch) < maxProcessingQueueSize \<and> \<not> closed ch \<longrightarrow>
        queuePostForProcessing post (ch, tr) = (Returned, ch\<lparr>buf := buf ch @ [post]\<rparr>, tr))"
  by (simp add: queuePostForProcessing_def queuePostForProcessing_select_def chan_send_def)

theorem enqueue_never_blocks_witness:
  "length (buf (full_queue False)) = maxProcessingQueueSize \<and> \<not> closed (full_queue False)
   \<and> queuePostForProcessing bot_post (full_queue False, []) =
       (Returned, full_queue False,
        [LogError ''Content moderation unable to analyze post: exceeded maximum post queue size''
           [LStr ''post_id'', LStr ''p2'']])
   \<and> length (buf make_chan) < maxProcessingQueueSize \<and> \<not> closed make_chan
   \<and> queuePostForProcessing bot_post (make_chan, []) = (Returned, \<lparr>buf = [bot_post], closed = False\<rparr>, [])"
  using enqueue_never_blocks [of bot_post "full_queue False" "[]"]
    enqueue_never_blocks [of bot_post make_chan "[]"]
  by (simp add: full_queue_def make_chan_def maxProcessingQueueSize_def bot_post_def)

section \<open>The take-down of a violation\<close>

text \<open>
  C9, as stated, fails when the host refuses the channel notice: the message was judged
  a Violation and its deletion requested, but the only post the bot attempts is the
  channel notice, and no direct message goes to the author.
\<close>

theorem no_direct_notice_after_failed_channel_notice:
  "verdict (fst (PostProcessor_moderatePost (example_processor hate80) example_post
                  [Sleep processingInterval])) = Violation
   \<and> deleted (processPost notice_fails_api (example_processor hate80) example_post []) = [''p1'']
   \<and> created (processPost notice_fails_api (example_processor hate80) example_post []) =
       [\<lparr>PostId = [], UserId = ''bot'', ChannelId = ''c1'', RootId = ''r1'',
         Message = ''_A post with potentially offensive content was flagged and removed._''\<rparr>]"
  by (simp add: processPost_def takeDown_def deleteFlaggedPost_def reportFlaggedPost_def
      reportModerationEvent_def notice_fails_api_def example_api_def
      example_processor_def example_post_def hate80_def
      channelNotice_def channelNotificationTemplate_def Wrap_def
      PostProcessor_moderatePost_def PostProcessor_shouldModerateUser_def shouldModerateChannel_def
      PostProcessor_logFlaggedResult_def)

text \<open>
  C9, amended. For every message judged a Violation by the worker: its deletion is
  requested exactly once; exactly one channel notice is attempted, in the channel and
  thread of the message, written by the bot, with the fixed template as its text, which
  is the same whatever the text of the message; at most one direct notice follows. When
  the channel notice is created and the direct channel between bot and author is
  obtained, exactly one direct notice is attempted, in that channel, and its text ends
  with the original text of the message. When the channel notice is refused or the
  direct channel is not obtained, the channel notice is the only post attempted: no
  direct notice.
\<close>

theorem violation_is_taken_down:
  "(PostProcessor_moderatePost p post (tr @ [Sleep processingInterval]) = (Some ErrModerationRejection, tr1) \<longrightarrow>
      deleted (processPost api p post tr) = deleted tr @ [PostId post]
      \<and> (\<exists>dms. created (processPost api p post tr) = created tr @ channelNotice p post # dms
            \<and> (dms = [] \<or> (\<exists>d. dms = [dmNotice p d post])))
      \<and> (CreatePost_result api (deleteFlaggedPost api post tr1) (channelNotice p post) = None
           \<and> GetDirectChannel_result api
                (deleteFlaggedPost api post tr1 @ [CreatePost (channelNotice p post)])
                (botID p) (UserId post) = Inr dm \<longrightarrow>
           created (processPost api p post tr) =
             created tr @ [channelNotice p post, dmNotice p dm post])
      \<and> (CreatePost_result api (deleteFlaggedPost api post tr1) (channelNotice p post) = Some e
           \<or> GetDirectChannel_result api
                (deleteFlaggedPost api post tr1 @ [CreatePost (channelNotice p post)])
                (botID p) (UserId post) = Inl e' \<longrightarrow>
           created (processPost api p post tr) = created tr @ [channelNotice p post]))
   \<and> channelNotice p post =
       \<lparr>PostId = [], UserId = botID p, ChannelId = ChannelId post, RootId = RootId post,
        Message = ''_A post with potentially offensive content was flagged and removed._''\<rparr>
   \<and> channelNotice p (post\<lparr>Message := msg\<rparr>) = channelNotice p post
   \<and> dmNotice p dm post \<noteq> channelNotice p post
   \<and> dmNotice p dm post =
       \<lparr>PostId = [], UserId = botID p, ChannelId = dm, RootId = [],
        Message = ''_Your post with the following content was flagged and removed:_''
                  @ [CHR 0x0A, CHR 0x0A] @ Message post\<rparr>"
proof -
  have v: "deleted (processPost api p post tr) = deleted tr @ [PostId post]
      \<and> (\<exists>dms. created (processPost api p post tr) = created tr @ channelNotice p post # dms
            \<and> (dms = [] \<or> (\<exists>d. dms = [dmNotice p d post])))
      \<and> (CreatePost_result api (deleteFlaggedPost api post tr1) (channelNotice p post) = None
           \<and> GetDirectChannel_result api
                (deleteFlaggedPost api post tr1 @ [CreatePost (channelNotice p post)])
                (botID p) (UserId post) = Inr dm \<longrightarrow>
           created (processPost api p post tr) =
             created tr @ [channelNotice p post, dmNotice p dm post])
      \<and> (CreatePost_result api (deleteFlaggedPost api post tr1) (channelNotice p post) = Some e
           \<or> GetDirectChannel_result api
                (deleteFlaggedPost api post tr1 @ [CreatePost (channelNotice p post)])
                (botID p) (UserId post) = Inl e' \<longrightarrow>
           created (processPost api p post tr) = created tr @ [channelNotice p post])"
    if m: "PostProcessor_moderatePost p post (tr @ [Sleep processingInterval]) = (Some ErrModerationRejection, tr1)"
  proof -
    have pp: "processPost api p post tr = takeDown api p post tr1"
      using m by (rule processPost_violation)
    have c: "created tr1 = created tr"
      using created_PostProcessor_moderatePost [of p post "tr @ [Sleep processingInterval]"] m
      by (simp add: created_append)
    have d: "deleted tr1 = deleted tr"
      using deleted_PostProcessor_moderatePost [of p post "tr @ [Sleep processingInterval]"] m
      by (simp add: deleted_append)
    have 1: "deleted (takeDown api p post tr1) = deleted tr @ [PostId post]"
      by (simp add: takeDown_def deleted_reportFlaggedPost deleted_deleteFlaggedPost d)
    have 2: "\<exists>dms. created (takeDown api p post tr1) = created tr @ channelNotice p post # dms
            \<and> (dms = [] \<or> (\<exists>d. dms = [dmNotice p d post]))"
      using created_reportFlaggedPost [of api p post "deleteFlaggedPost api post tr1"]
      by (simp add: takeDown_def created_deleteFlaggedPost c)
    have 3: "created (takeDown api p post tr1) =
             created tr @ [channelNotice p post, dmNotice p dm post]"
      if "CreatePost_result api (deleteFlaggedPost api post tr1) (channelNotice p post) = None"
        "GetDirectChannel_result api
                (deleteFlaggedPost api post tr1 @ [CreatePost (channelNotice p post)])
                (botID p) (UserId post) = Inr dm"
      using reportFlaggedPost_ok [OF that]
      by (simp add: takeDown_def created_deleteFlaggedPost c)
    have 4: "created (takeDown api p post tr1) = created tr @ [channelNotice p post]"
      if "CreatePost_result api (deleteFlaggedPost api post tr1) (channelNotice p post) = Some e
           \<or> GetDirectChannel_result api
                (deleteFlaggedPost api post tr1 @ [CreatePost (channelNotice p post)])
                (botID p) (UserId post) = Inl e'"
      using reportFlaggedPost_no_dm [OF that]
      by (simp add: takeDown_def created_deleteFlaggedPost c)
    from 1 2 3 4 show ?thesis unfolding pp by blast
  qed
  have n: "channelNotice p post =
       \<lparr>PostId = [], UserId = botID p, ChannelId = ChannelId post, RootId = RootId post,
        Message = ''_A post with potentially offensive content was flagged and removed._''\<rparr>"
    by (simp add: channelNotice_def channelNotificationTemplate_def)
  have i: "channelNotice p (post\<lparr>Message := msg\<rparr>) = channelNotice p post"
    by (simp add: channelNotice_def)
  have ne: "dmNotice p dm post \<noteq> channelNotice p post"
    by (simp add: channelNotice_def dmNotice_def dmNotification_def dmNotificationPrefix_def
        channelNotificationTemplate_def)
  have dmn: "dmNotice p dm post =
       \<lparr>PostId = [], UserId = botID p, ChannelId = dm, RootId = [],
        Message = ''_Your post with the following content was flagged and removed:_''
                  @ [CHR 0x0A, CHR 0x0A] @ Message post\<rparr>"
    by (simp add: dmNotice_def dmNotification_def dmNotificationPrefix_def)
  from v n i ne dmn show ?thesis by blast
qed

theorem violation_is_taken_down_witness:
  "PostProcessor_moderatePost (example_processor hate80) example_post ([] @ [Sleep processingInterval]) =
     (Some ErrModerationRejection,
      [Sleep processingInterval, ModerateText ''some text'',
       LogInfo ''Content was flagged by moderation''
         [LStr ''post_id'', LStr ''p1'', LStr ''severity_threshold'', LInt 50,
          LStr ''computed_severity_hate'', LInt 80]])
   \<and> deleted (processPost example_api (example_processor hate80) example_post []) = [''p1'']
   \<and> created (processPost example_api (example_processor hate80) example_post []) =
       [\<lparr>PostId = [], UserId = ''bot'', ChannelId = ''c1'', RootId = ''r1'',
         Message = ''_A post with potentially offensive content was flagged and removed._''\<rparr>,
        \<lparr>PostId = [], UserId = ''bot'', ChannelId = ''dm1'', RootId = [],
         Message = ''_Your post with the following content was flagged and removed:_''
                   @ [CHR 0x0A, CHR 0x0A] @ ''some text''\<rparr>]
   \<and> CreatePost_result notice_fails_api
         (deleteFlaggedPost notice_fails_api example_post
            ([Sleep processingInterval, ModerateText ''some text'',
        LogInfo ''Content was flagged by moderation''
         [LStr ''post_id'', LStr ''p1'', LStr ''severity_threshold'', LInt 50,
          LStr ''computed_severity_hate'', LInt 80]]))
         (channelNotice (example_processor hate80) example_post) = Some ''channel is archived''
   \<and> created (processPost notice_fails_api (example_processor hate80) example_post []) =
       [channelNotice (example_processor hate80) example_post]
   \<and> GetDirectChannel_result lookup_fails_api
         (deleteFlaggedPost lookup_fails_api example_post
            ([Sleep processingInterval, ModerateText ''some text'',
        LogInfo ''Content was flagged by moderation''
         [LStr ''post_id'', LStr ''p1'', LStr ''severity_threshold'', LInt 50,
          LStr ''computed_severity_hate'', LInt 80]])
          @ [CreatePost (channelNotice (example_processor hate80) example_post)])
         (botID (example_processor hate80)) (UserId example_post) = Inl ''user is deactivated''
   \<and> created (processPost lookup_fails_api (example_processor hate80) example_post []) =
       [channelNotice (example_processor hate80) example_post]"
  using violation_is_taken_down [where p = "example_processor hate80" and post = example_post
      and tr = "[]" and ?tr1.0 = "[Sleep processingInterval, ModerateText ''some text'',
        LogInfo ''Content was flagged by moderation''
         [LStr ''post_id'', LStr ''p1'', LStr ''severity_threshold'', LInt 50,
          LStr ''computed_severity_hate'', LInt 80]]"
      and api = example_api and dm = "''dm1''" and e = "''x''" and e' = "''x''" and msg = "''x''"]
    violation_is_taken_down [where p = "example_processor hate80" and post = example_post
      and tr = "[]" and ?tr1.0 = "[Sleep processingInterval, ModerateText ''some text'',
        LogInfo ''Content was flagged by moderation''
         [LStr ''post_id'', LStr ''p1'', LStr ''severity_threshold'', LInt 50,
          LStr ''computed_severity_hate'', LInt 80]]"
      and api = notice_fails_api and dm = "''dm1''" and e = "''channel is archived''"
      and e' = "''x''" and msg = "''x''"]
    violation_is_taken_down [where p = "example_processor hate80" and post = example_post
      and tr = "[]" and ?tr1.0 = "[Sleep processingInterval, ModerateText ''some text'',
        LogInfo ''Content was flagged by moderation''
         [LStr ''post_id'', LStr ''p1'', LStr ''severity_threshold'', LInt 50,
          LStr ''computed_severity_hate'', LInt 80]]"
      and api = lookup_fails_api and dm = "''dm1''" and e = "''x''"
      and e' = "''user is deactivated''" and msg = "''x''"]
  by (simp add: example_api_def notice_fails_api_def lookup_fails_api_def
      example_processor_def example_post_def hate80_def
      PostProcessor_moderatePost_def PostProcessor_shouldModerateUser_def shouldModerateChannel_def
      PostProcessor_logFlaggedResult_def channelNotice_def)

section \<open>Enqueueing after \<^verbatim>\<open>stop\<close>\<close>

text \<open>
  C10. On a closed queue the send of \<^verbatim>\<open>queuePostForProcessing\<close> panics, the deferred
  function recovers the panic and logs a debug line, and the call returns normally with
  the queue unchanged. \<^verbatim>\<open>stop\<close> leaves the queue closed, with its buffer as it was.
\<close>

theorem enqueue_after_stop_recovers:
  "(closed ch \<longrightarrow>
      queuePostForProcessing_select post (ch, tr) = (Panicked ''send on closed channel'', ch, tr)
      \<and> queuePostForProcessing post (ch, tr) =
          (Returned, ch,
           tr @ [LogDebug ''Panic occurred while queueing post for processing''
                   [LStr ''post_id'', LStr (PostId post), LStr ''panic'', LStr ''send on closed channel'']]))
   \<and> (stop ch0 = Inr ch \<longrightarrow>
        closed ch \<and> buf ch = buf ch0
        \<and> fst (queuePostForProcessing post (ch, tr)) = Returned
        \<and> fst (snd (queuePostForProcessing post (ch, tr))) = ch
        \<and> snd (snd (queuePostForProcessing post (ch, tr))) =
            tr @ [LogDebug ''Panic occurred while queueing post for processing''
                    [LStr ''post_id'', LStr (PostId post), LStr ''panic'', LStr ''send on closed channel'']])"
  by (auto simp: queuePostForProcessing_def queuePostForProcessing_select_def chan_send_def stop_def
      split: if_splits)

theorem enqueue_after_stop_recovers_witness:
  "stop make_chan = Inr \<lparr>buf = [], closed = True\<rparr>
   \<and> closed \<lparr>buf = [], closed = True\<rparr>
   \<and> queuePostForProcessing bot_post (\<lparr>buf = [], closed = True\<rparr>, []) =
       (Returned, \<lparr>buf = [], closed = True\<rparr>,
        [LogDebug ''Panic occurred while queueing post for processing''
           [LStr ''post_id'', LStr ''p2'', LStr ''panic'', LStr ''send on closed channel'']])"
  using enqueue_after_stop_recovers [of "\<lparr>buf = [], closed = True\<rparr>" bot_post "[]" make_chan]
  by (simp add: stop_def make_chan_def bot_post_def)

end
